theory Spec2Isabelle
  imports Main "HOL-Library.Word"
begin

section \<open>The libCEC callback bridge (src/cec/callbacks_c.c)\<close>

text \<open>
  The file holds seven C functions that libCEC calls by address. Each one unpacks its
  arguments and calls one \<^verbatim>\<open>extern\<close> function implemented on the Go side. The
  model below keeps the three things such a function can do: read memory through a
  pointer it was given, call an external handler, and return.
\<close>

subsection \<open>Machine types\<close>

text \<open>
  \<^verbatim>\<open>int\<close>, \<^verbatim>\<open>unsigned int\<close> and the enumerated types are 32-bit words, so a
  conversion between two of them keeps the bit pattern; \<^verbatim>\<open>int64_t\<close> is a 64-bit
  word, \<^verbatim>\<open>uint8_t\<close> an 8-bit word. Every pointer (\<^verbatim>\<open>void*\<close>, \<^verbatim>\<open>char*\<close>, a
  pointer to a struct) is an address, a 64-bit word whose value 0 is the null pointer.
\<close>

type_synonym c_int = "32 word"
type_synonym c_uint = "32 word"
type_synonym int64_t = "64 word"
type_synonym uint8_t = "8 word"
type_synonym addr = "64 word"

abbreviation NULL :: addr where
  "NULL \<equiv> 0"

subsection \<open>The records behind the pointers\<close>

text \<open>
  Modelled from the spec: the declaration of the struct \<^verbatim>\<open>cec_log_message\<close> is in
  the header libcec/cecc.h, which is not part of the source. The bridge reads the fields
  \<^verbatim>\<open>message\<close>, \<^verbatim>\<open>level\<close> and \<^verbatim>\<open>time\<close>; the spec gives them as the borrowed
  message text, the severity level (an integer enum) and a 64-bit signed timestamp.
\<close>

record cec_log_message =
  message :: addr
  level :: c_int
  time :: int64_t

text \<open>
  Modelled from the spec: the declaration of the struct \<^verbatim>\<open>cec_keypress\<close> is in the
  same missing header. The bridge reads \<^verbatim>\<open>keycode\<close> and \<^verbatim>\<open>duration\<close>; the spec
  gives them as the key code (integer) and the duration (unsigned integer).
\<close>

record cec_keypress =
  keycode :: c_int
  duration :: c_uint

text \<open>
  Memory maps an address to the object that lives there. The layout of
  \<^verbatim>\<open>libcec_parameter\<close> is declared in the missing header and the bridge never looks
  inside one, so its values are a type parameter \<open>'p\<close>. Command and configuration
  records are never read by the bridge and need no object of their own.
\<close>

datatype 'p obj =
    LogMessageObj cec_log_message
  | KeyPressObj cec_keypress
  | ParameterObj 'p

type_synonym 'p memory = "addr \<rightharpoonup> 'p obj"

text \<open>What the Go side can see and change: memory, and its own state \<open>'h\<close>.\<close>

record ('p, 'h) state =
  mem :: "'p memory"
  host :: 'h

subsection \<open>The Go side\<close>

text \<open>
  The seven \<^verbatim>\<open>extern\<close> declarations (lines 8 to 14). Their bodies are on the Go side,
  so they are parameters of the model. A handler may change the state, and it may fail
  to come back (it blocks for ever, or the Go runtime aborts): that is \<open>None\<close>.
\<close>

record ('p, 'h) bridges =
  goLogMessageCallbackBridge ::
    "addr \<Rightarrow> c_int \<Rightarrow> int64_t \<Rightarrow> addr \<Rightarrow> ('p, 'h) state \<Rightarrow> ('p, 'h) state option"
  goKeyPressCallbackBridge ::
    "addr \<Rightarrow> c_int \<Rightarrow> c_uint \<Rightarrow> ('p, 'h) state \<Rightarrow> ('p, 'h) state option"
  goCommandCallbackBridge ::
    "addr \<Rightarrow> addr \<Rightarrow> ('p, 'h) state \<Rightarrow> ('p, 'h) state option"
  goConfigurationChangedCallbackBridge ::
    "addr \<Rightarrow> addr \<Rightarrow> ('p, 'h) state \<Rightarrow> ('p, 'h) state option"
  goAlertCallbackBridge ::
    "addr \<Rightarrow> c_int \<Rightarrow> addr \<Rightarrow> ('p, 'h) state \<Rightarrow> ('p, 'h) state option"
  goMenuStateChangedCallbackBridge ::
    "addr \<Rightarrow> c_int \<Rightarrow> ('p, 'h) state \<Rightarrow> (c_int \<times> ('p, 'h) state) option"
  goSourceActivatedCallbackBridge ::
    "addr \<Rightarrow> c_int \<Rightarrow> c_int \<Rightarrow> ('p, 'h) state \<Rightarrow> ('p, 'h) state option"

text \<open>One call from the bridge into the Go side, with the argument values it carried.\<close>

datatype dispatch =
    LogMessageCall addr c_int int64_t addr
  | KeyPressCall addr c_int c_uint
  | CommandCall addr addr
  | ConfigurationChangedCall addr addr
  | AlertCall addr c_int addr
  | MenuStateChangedCall addr c_int
  | SourceActivatedCall addr c_int c_int

fun handle_of :: "dispatch \<Rightarrow> addr" where
  "handle_of (LogMessageCall h l t m) = h"
| "handle_of (KeyPressCall h k d) = h"
| "handle_of (CommandCall h c) = h"
| "handle_of (ConfigurationChangedCall h c) = h"
| "handle_of (AlertCall h a p) = h"
| "handle_of (MenuStateChangedCall h st) = h"
| "handle_of (SourceActivatedCall h a f) = h"

subsection \<open>Outcomes\<close>

text \<open>
  An entry point either returns, with its C return value, the calls it made into the Go
  side in order, and the state it leaves; or it does not: it read through a pointer
  that addresses no object of the expected type, or the handler it called never came back.
\<close>

datatype fault = InvalidRead addr | NoReturn dispatch

type_synonym ('a, 'p, 'h) outcome = "fault + ('a \<times> dispatch list \<times> ('p, 'h) state)"

fun calls_made :: "('a, 'p, 'h) outcome \<Rightarrow> dispatch list" where
  "calls_made (Inl (InvalidRead a)) = []"
| "calls_made (Inl (NoReturn d)) = [d]"
| "calls_made (Inr (r, ds, s)) = ds"

fun faulted :: "('a, 'p, 'h) outcome \<Rightarrow> bool" where
  "faulted (Inl (InvalidRead a)) = True"
| "faulted (Inl (NoReturn d)) = False"
| "faulted (Inr x) = False"

fun returned :: "('a, 'p, 'h) outcome \<Rightarrow> 'a option" where
  "returned (Inl e) = None"
| "returned (Inr (r, ds, s)) = Some r"

fun final_state :: "('a, 'p, 'h) outcome \<Rightarrow> ('p, 'h) state option" where
  "final_state (Inl e) = None"
| "final_state (Inr (r, ds, s)) = Some s"

definition call_void ::
  "dispatch \<Rightarrow> (('p, 'h) state \<Rightarrow> ('p, 'h) state option) \<Rightarrow> ('p, 'h) state
     \<Rightarrow> (unit, 'p, 'h) outcome" where
  "call_void d f s = (case f s of None \<Rightarrow> Inl (NoReturn d) | Some s' \<Rightarrow> Inr ((), [d], s'))"

definition call_int ::
  "dispatch \<Rightarrow> (('p, 'h) state \<Rightarrow> (c_int \<times> ('p, 'h) state) option) \<Rightarrow> ('p, 'h) state
     \<Rightarrow> (c_int, 'p, 'h) outcome" where
  "call_int d f s = (case f s of None \<Rightarrow> Inl (NoReturn d) | Some (r, s') \<Rightarrow> Inr (r, [d], s'))"

text \<open>Reading a struct through a pointer.\<close>

definition read_log_message :: "'p memory \<Rightarrow> addr \<Rightarrow> fault + cec_log_message" where
  "read_log_message m p =
     (case m p of Some (LogMessageObj r) \<Rightarrow> Inr r | _ \<Rightarrow> Inl (InvalidRead p))"

definition read_keypress :: "'p memory \<Rightarrow> addr \<Rightarrow> fault + cec_keypress" where
  "read_keypress m p =
     (case m p of Some (KeyPressObj k) \<Rightarrow> Inr k | _ \<Rightarrow> Inl (InvalidRead p))"

subsection \<open>The seven entry points\<close>

text \<open>
  Lines 16 to 20. \<^verbatim>\<open>&&\<close> evaluates its right operand only when the left one is
  non-null, so a null record is never read.
\<close>

definition goLogMessageCallback ::
  "('p, 'h) bridges \<Rightarrow> addr \<Rightarrow> addr \<Rightarrow> ('p, 'h) state \<Rightarrow> (unit, 'p, 'h) outcome" where
  "goLogMessageCallback B handle msg s =
     (if msg = NULL then Inr ((), [], s)
      else case read_log_message (mem s) msg of
             Inl e \<Rightarrow> Inl e
           | Inr r \<Rightarrow>
               if message r = NULL then Inr ((), [], s)
               else call_void (LogMessageCall handle (level r) (time r) (message r))
                      (goLogMessageCallbackBridge B handle (level r) (time r) (message r)) s)"

text \<open>Lines 22 to 26.\<close>

definition goKeyPressCallback ::
  "('p, 'h) bridges \<Rightarrow> addr \<Rightarrow> addr \<Rightarrow> ('p, 'h) state \<Rightarrow> (unit, 'p, 'h) outcome" where
  "goKeyPressCallback B handle key s =
     (if key = NULL then Inr ((), [], s)
      else case read_keypress (mem s) key of
             Inl e \<Rightarrow> Inl e
           | Inr k \<Rightarrow>
               call_void (KeyPressCall handle (keycode k) (duration k))
                 (goKeyPressCallbackBridge B handle (keycode k) (duration k)) s)"

text \<open>Lines 28 to 32: the pointer is tested and cast, never followed.\<close>

definition goCommandCallback ::
  "('p, 'h) bridges \<Rightarrow> addr \<Rightarrow> addr \<Rightarrow> ('p, 'h) state \<Rightarrow> (unit, 'p, 'h) outcome" where
  "goCommandCallback B handle command s =
     (if command = NULL then Inr ((), [], s)
      else call_void (CommandCall handle command) (goCommandCallbackBridge B handle command) s)"

text \<open>Lines 34 to 38.\<close>

definition goConfigurationChangedCallback ::
  "('p, 'h) bridges \<Rightarrow> addr \<Rightarrow> addr \<Rightarrow> ('p, 'h) state \<Rightarrow> (unit, 'p, 'h) outcome" where
  "goConfigurationChangedCallback B handle config s =
     (if config = NULL then Inr ((), [], s)
      else call_void (ConfigurationChangedCall handle config)
             (goConfigurationChangedCallbackBridge B handle config) s)"

text \<open>
  Lines 40 to 42. \<^verbatim>\<open>param\<close> is a parameter passed by value: in C it is an object of
  the called function, initialised with the argument's value, that lives from entry to
  return. \<^verbatim>\<open>&param\<close> is the address of that object. Where the C implementation
  puts it is not decided by the source, so the address is the argument
  \<open>param_addr\<close> of the model. The object is created on entry and gone on return.
\<close>

definition goAlertCallback ::
  "('p, 'h) bridges \<Rightarrow> addr \<Rightarrow> addr \<Rightarrow> c_int \<Rightarrow> 'p \<Rightarrow> ('p, 'h) state
     \<Rightarrow> (unit, 'p, 'h) outcome" where
  "goAlertCallback B param_addr handle alert param s =
     (case call_void (AlertCall handle alert param_addr)
             (goAlertCallbackBridge B handle alert param_addr)
             (s\<lparr>mem := (mem s)(param_addr \<mapsto> ParameterObj param)\<rparr>) of
        Inl e \<Rightarrow> Inl e
      | Inr (u, ds, s') \<Rightarrow> Inr (u, ds, s'\<lparr>mem := (mem s')(param_addr := None)\<rparr>))"

text \<open>Lines 44 to 46: the one entry point with a return value.\<close>

definition goMenuStateChangedCallback ::
  "('p, 'h) bridges \<Rightarrow> addr \<Rightarrow> c_int \<Rightarrow> ('p, 'h) state \<Rightarrow> (c_int, 'p, 'h) outcome" where
  "goMenuStateChangedCallback B handle st s =
     call_int (MenuStateChangedCall handle st) (goMenuStateChangedCallbackBridge B handle st) s"

text \<open>
  Lines 48 to 50. \<^verbatim>\<open>activated\<close> is a \<^verbatim>\<open>uint8_t\<close> passed where an \<^verbatim>\<open>int\<close> is
  expected: the conversion keeps the value, which is a zero extension to 32 bits.
\<close>

definition goSourceActivatedCallback ::
  "('p, 'h) bridges \<Rightarrow> addr \<Rightarrow> c_int \<Rightarrow> uint8_t \<Rightarrow> ('p, 'h) state
     \<Rightarrow> (unit, 'p, 'h) outcome" where
  "goSourceActivatedCallback B handle address activated s =
     call_void (SourceActivatedCall handle address (ucast activated))
       (goSourceActivatedCallbackBridge B handle address (ucast activated)) s"

subsection \<open>A sample Go side and a sample memory\<close>

text \<open>
  Concrete inputs on which the theorems below are evaluated. Six sample handlers count
  their calls in the host state; the alert handler overwrites the object behind the
  pointer it is given; the menu handler answers the state it was asked about plus 40.
  The sample memory holds a log record with a message text, a log record whose message
  text is null, a key-press record, and a parameter object of the native caller.
\<close>

definition sample_host :: "(nat, nat) bridges" where
  "sample_host =
     \<lparr>goLogMessageCallbackBridge = (\<lambda>h l t m s. Some (s\<lparr>host := Suc (host s)\<rparr>)),
      goKeyPressCallbackBridge = (\<lambda>h k d s. Some (s\<lparr>host := Suc (host s)\<rparr>)),
      goCommandCallbackBridge = (\<lambda>h c s. Some (s\<lparr>host := Suc (host s)\<rparr>)),
      goConfigurationChangedCallbackBridge = (\<lambda>h c s. Some (s\<lparr>host := Suc (host s)\<rparr>)),
      goAlertCallbackBridge = (\<lambda>h a p s. Some (s\<lparr>mem := (mem s)(p \<mapsto> ParameterObj 99)\<rparr>)),
      goMenuStateChangedCallbackBridge = (\<lambda>h st s. Some (st + 40, s\<lparr>host := Suc (host s)\<rparr>)),
      goSourceActivatedCallbackBridge = (\<lambda>h a f s. Some (s\<lparr>host := Suc (host s)\<rparr>))\<rparr>"

definition sample_state :: "(nat, nat) state" where
  "sample_state =
     \<lparr>mem = [0x1000 \<mapsto> LogMessageObj \<lparr>message = 0x2000, level = 3, time = 1700000000\<rparr>,
             0x1010 \<mapsto> LogMessageObj \<lparr>message = NULL, level = 3, time = 1700000000\<rparr>,
             0x1020 \<mapsto> KeyPressObj \<lparr>keycode = 0x44, duration = 500\<rparr>,
             0x1030 \<mapsto> ParameterObj 7],
      host = 0\<rparr>"

text \<open>
  A second Go side and a second memory, with another type of host state: its key-press
  handler never comes back and its menu handler always answers 41. The memory agrees
  with the first one on the log record and the key-press record and differs elsewhere.
\<close>

definition other_host :: "(nat, bool) bridges" where
  "other_host =
     \<lparr>goLogMessageCallbackBridge = (\<lambda>h l t m s. Some (s\<lparr>host := True\<rparr>)),
      goKeyPressCallbackBridge = (\<lambda>h k d s. None),
      goCommandCallbackBridge = (\<lambda>h c s. Some s),
      goConfigurationChangedCallbackBridge = (\<lambda>h c s. Some s),
      goAlertCallbackBridge = (\<lambda>h a p s. Some s),
      goMenuStateChangedCallbackBridge = (\<lambda>h st s. Some (41, s)),
      goSourceActivatedCallbackBridge = (\<lambda>h a f s. Some s)\<rparr>"

definition other_state :: "(nat, bool) state" where
  "other_state =
     \<lparr>mem = [0x1000 \<mapsto> LogMessageObj \<lparr>message = 0x2000, level = 3, time = 1700000000\<rparr>,
             0x1020 \<mapsto> KeyPressObj \<lparr>keycode = 0x44, duration = 500\<rparr>,
             0x5000 \<mapsto> ParameterObj 1],
      host = False\<rparr>"

text \<open>
  A Go side that remembers what it was last called with: each handler replaces the host
  state by the one call it has just received, built from the argument values that
  reached it. Two states for it share the sample memory; the first has seen no call,
  the second has already seen a key press for another handle.
\<close>

definition recording_host :: "(nat, dispatch list) bridges" where
  "recording_host =
     \<lparr>goLogMessageCallbackBridge = (\<lambda>h l t m s. Some (s\<lparr>host := [LogMessageCall h l t m]\<rparr>)),
      goKeyPressCallbackBridge = (\<lambda>h k d s. Some (s\<lparr>host := [KeyPressCall h k d]\<rparr>)),
      goCommandCallbackBridge = (\<lambda>h c s. Some (s\<lparr>host := [CommandCall h c]\<rparr>)),
      goConfigurationChangedCallbackBridge =
        (\<lambda>h c s. Some (s\<lparr>host := [ConfigurationChangedCall h c]\<rparr>)),
      goAlertCallbackBridge = (\<lambda>h a p s. Some (s\<lparr>host := [AlertCall h a p]\<rparr>)),
      goMenuStateChangedCallbackBridge =
        (\<lambda>h st s. Some (st + 40, s\<lparr>host := [MenuStateChangedCall h st]\<rparr>)),
      goSourceActivatedCallbackBridge =
        (\<lambda>h a f s. Some (s\<lparr>host := [SourceActivatedCall h a f]\<rparr>))\<rparr>"

definition recording_state :: "(nat, dispatch list) state" where
  "recording_state = \<lparr>mem = mem sample_state, host = []\<rparr>"

definition later_state :: "(nat, dispatch list) state" where
  "later_state = \<lparr>mem = mem sample_state, host = [KeyPressCall 0x55 0x41 30]\<rparr>"

section \<open>Basic facts about calls and reads\<close>

lemma call_void_calls: "calls_made (call_void d f s) = [d]"
  by (simp add: call_void_def split: option.split)

lemma call_int_calls: "calls_made (call_int d f s) = [d]"
  by (simp add: call_int_def split: option.split)

lemma call_void_not_faulted: "\<not> faulted (call_void d f s)"
  by (simp add: call_void_def split: option.split)

lemma call_int_not_faulted: "\<not> faulted (call_int d f s)"
  by (simp add: call_int_def split: option.split)

lemma call_void_final: "final_state (call_void d f s) = f s"
  by (simp add: call_void_def split: option.split)

lemma log_valid:
  "msg \<noteq> NULL \<Longrightarrow> mem s msg = Some (LogMessageObj r) \<Longrightarrow> message r \<noteq> NULL \<Longrightarrow>
   goLogMessageCallback B handle msg s =
     call_void (LogMessageCall handle (level r) (time r) (message r))
       (goLogMessageCallbackBridge B handle (level r) (time r) (message r)) s"
  by (simp add: goLogMessageCallback_def read_log_message_def)

lemma key_valid:
  "key \<noteq> NULL \<Longrightarrow> mem s key = Some (KeyPressObj k) \<Longrightarrow>
   goKeyPressCallback B handle key s =
     call_void (KeyPressCall handle (keycode k) (duration k))
       (goKeyPressCallbackBridge B handle (keycode k) (duration k)) s"
  by (simp add: goKeyPressCallback_def read_keypress_def)

lemma command_valid:
  "command \<noteq> NULL \<Longrightarrow>
   goCommandCallback B handle command s =
     call_void (CommandCall handle command) (goCommandCallbackBridge B handle command) s"
  by (simp add: goCommandCallback_def)

lemma config_valid:
  "config \<noteq> NULL \<Longrightarrow>
   goConfigurationChangedCallback B handle config s =
     call_void (ConfigurationChangedCall handle config)
       (goConfigurationChangedCallbackBridge B handle config) s"
  by (simp add: goConfigurationChangedCallback_def)

lemma alert_calls:
  "calls_made (goAlertCallback B pa handle alert param s) = [AlertCall handle alert pa]"
  by (simp add: goAlertCallback_def call_void_def split: option.split)

lemma alert_not_faulted: "\<not> faulted (goAlertCallback B pa handle alert param s)"
  by (simp add: goAlertCallback_def call_void_def split: option.split)

lemma log_calls_cases:
  "calls_made (goLogMessageCallback B handle msg s) =
     (if msg = NULL then []
      else case mem s msg of
             Some (LogMessageObj r) \<Rightarrow>
               if message r = NULL then []
               else [LogMessageCall handle (level r) (time r) (message r)]
           | _ \<Rightarrow> [])"
  by (simp add: goLogMessageCallback_def read_log_message_def call_void_calls
      split: option.split obj.split)

lemma key_calls_cases:
  "calls_made (goKeyPressCallback B handle key s) =
     (if key = NULL then []
      else case mem s key of
             Some (KeyPressObj k) \<Rightarrow> [KeyPressCall handle (keycode k) (duration k)]
           | _ \<Rightarrow> [])"
  by (simp add: goKeyPressCallback_def read_keypress_def call_void_calls
      split: option.split obj.split)

lemma command_calls_cases:
  "calls_made (goCommandCallback B handle command s) =
     (if command = NULL then [] else [CommandCall handle command])"
  by (simp add: goCommandCallback_def call_void_calls)

lemma config_calls_cases:
  "calls_made (goConfigurationChangedCallback B handle config s) =
     (if config = NULL then [] else [ConfigurationChangedCall handle config])"
  by (simp add: goConfigurationChangedCallback_def call_void_calls)

lemma menu_calls:
  "calls_made (goMenuStateChangedCallback B handle st s) = [MenuStateChangedCall handle st]"
  by (simp add: goMenuStateChangedCallback_def call_int_calls)

lemma source_calls:
  "calls_made (goSourceActivatedCallback B handle address activated s) =
     [SourceActivatedCall handle address (ucast activated)]"
  by (simp add: goSourceActivatedCallback_def call_void_calls)

lemma flag_uint: "uint (ucast (a :: uint8_t) :: c_int) = uint a"
  by (simp add: uint_up_ucast is_up)

lemma flag_roundtrip: "(ucast (ucast (a :: uint8_t) :: c_int) :: uint8_t) = a"
  by (simp add: ucast_up_ucast_id is_up)

lemma flag_sint: "sint (ucast (a :: uint8_t) :: c_int) = uint a"
proof -
  have "uint a < 2 ^ 8"
    using uint_bounded [of a] by simp
  then have "uint a < 2 ^ 31"
    by simp
  moreover have "- (2 ^ 31) \<le> uint a"
    by (rule order_trans [of _ 0]) simp_all
  ultimately have "signed_take_bit 31 (uint a) = uint a"
    by (simp add: signed_take_bit_int_eq_self)
  then show ?thesis
    by (simp add: signed_ucast_eq)
qed

lemma call_int_returned: "returned (call_int d f s) = map_option fst (f s)"
  by (simp add: call_int_def split: option.split prod.split)

lemma call_int_final: "final_state (call_int d f s) = map_option snd (f s)"
  by (simp add: call_int_def split: option.split prod.split)

lemma menu_returned:
  "returned (goMenuStateChangedCallback B handle st s) =
     map_option fst (goMenuStateChangedCallbackBridge B handle st s)"
  by (simp add: goMenuStateChangedCallback_def call_int_returned)

lemma alert_final:
  "final_state (goAlertCallback B pa handle alert param s) =
     map_option (\<lambda>s2. s2\<lparr>mem := (mem s2)(pa := None)\<rparr>)
       (goAlertCallbackBridge B handle alert pa
          (s\<lparr>mem := (mem s)(pa \<mapsto> ParameterObj param)\<rparr>))"
  by (simp add: goAlertCallback_def call_void_def split: option.split)

lemma log_final:
  "final_state (goLogMessageCallback B handle msg s) = Some s' \<Longrightarrow>
     s' = s \<or> (\<exists>l t m. goLogMessageCallbackBridge B handle l t m s = Some s')"
  by (auto simp: goLogMessageCallback_def read_log_message_def call_void_final
      split: if_splits option.splits obj.splits)

lemma key_final:
  "final_state (goKeyPressCallback B handle key s) = Some s' \<Longrightarrow>
     s' = s \<or> (\<exists>c d. goKeyPressCallbackBridge B handle c d s = Some s')"
  by (auto simp: goKeyPressCallback_def read_keypress_def call_void_final
      split: if_splits option.splits obj.splits)

lemma command_final:
  "final_state (goCommandCallback B handle command s) =
     (if command = NULL then Some s else goCommandCallbackBridge B handle command s)"
  by (simp add: goCommandCallback_def call_void_final)

lemma config_final:
  "final_state (goConfigurationChangedCallback B handle config s) =
     (if config = NULL then Some s else goConfigurationChangedCallbackBridge B handle config s)"
  by (simp add: goConfigurationChangedCallback_def call_void_final)

lemma menu_final:
  "final_state (goMenuStateChangedCallback B handle st s) =
     map_option snd (goMenuStateChangedCallbackBridge B handle st s)"
  by (simp add: goMenuStateChangedCallback_def call_int_final)

lemma source_final:
  "final_state (goSourceActivatedCallback B handle address activated s) =
     goSourceActivatedCallbackBridge B handle address (ucast activated) s"
  by (simp add: goSourceActivatedCallback_def call_void_final)

lemma log_final_eq:
  "final_state (goLogMessageCallback B handle msg s) =
     (if msg = NULL then Some s
      else case mem s msg of
             Some (LogMessageObj r) \<Rightarrow>
               if message r = NULL then Some s
               else goLogMessageCallbackBridge B handle (level r) (time r) (message r) s
           | _ \<Rightarrow> None)"
  by (simp add: goLogMessageCallback_def read_log_message_def call_void_final
      split: option.split obj.split)

lemma key_final_eq:
  "final_state (goKeyPressCallback B handle key s) =
     (if key = NULL then Some s
      else case mem s key of
             Some (KeyPressObj k) \<Rightarrow> goKeyPressCallbackBridge B handle (keycode k) (duration k) s
           | _ \<Rightarrow> None)"
  by (simp add: goKeyPressCallback_def read_keypress_def call_void_final
      split: option.split obj.split)

lemma log_two_runs:
  "msg \<noteq> NULL \<Longrightarrow> mem s msg = Some (LogMessageObj r) \<Longrightarrow>
   mem sc msg = Some (LogMessageObj r) \<Longrightarrow> message r \<noteq> NULL \<Longrightarrow>
   goLogMessageCallbackBridge B handle (level r) (time r) (message r) s =
   goLogMessageCallbackBridge Bc handle (level r) (time r) (message r) sc \<Longrightarrow>
   goLogMessageCallback B handle msg s = goLogMessageCallback Bc handle msg sc"
  by (simp add: goLogMessageCallback_def read_log_message_def call_void_def)

lemma key_two_runs:
  "key \<noteq> NULL \<Longrightarrow> mem s key = Some (KeyPressObj k) \<Longrightarrow>
   mem sc key = Some (KeyPressObj k) \<Longrightarrow>
   goKeyPressCallbackBridge B handle (keycode k) (duration k) s =
   goKeyPressCallbackBridge Bc handle (keycode k) (duration k) sc \<Longrightarrow>
   goKeyPressCallback B handle key s = goKeyPressCallback Bc handle key sc"
  by (simp add: goKeyPressCallback_def read_keypress_def call_void_def)

lemma command_two_runs:
  "command \<noteq> NULL \<Longrightarrow>
   goCommandCallbackBridge B handle command s = goCommandCallbackBridge Bc handle command sc \<Longrightarrow>
   goCommandCallback B handle command s = goCommandCallback Bc handle command sc"
  by (simp add: goCommandCallback_def call_void_def)

lemma config_two_runs:
  "config \<noteq> NULL \<Longrightarrow>
   goConfigurationChangedCallbackBridge B handle config s =
   goConfigurationChangedCallbackBridge Bc handle config sc \<Longrightarrow>
   goConfigurationChangedCallback B handle config s =
   goConfigurationChangedCallback Bc handle config sc"
  by (simp add: goConfigurationChangedCallback_def call_void_def)

lemma alert_two_runs:
  "goAlertCallbackBridge B handle alert pa (s\<lparr>mem := (mem s)(pa \<mapsto> ParameterObj param)\<rparr>) =
   goAlertCallbackBridge Bc handle alert pa (sc\<lparr>mem := (mem sc)(pa \<mapsto> ParameterObj param)\<rparr>)
   \<Longrightarrow> goAlertCallback B pa handle alert param s = goAlertCallback Bc pa handle alert param sc"
  by (simp add: goAlertCallback_def call_void_def)

lemma menu_two_runs:
  "goMenuStateChangedCallbackBridge B handle st s =
   goMenuStateChangedCallbackBridge Bc handle st sc \<Longrightarrow>
   goMenuStateChangedCallback B handle st s = goMenuStateChangedCallback Bc handle st sc"
  by (simp add: goMenuStateChangedCallback_def call_int_def)

lemma source_two_runs:
  "goSourceActivatedCallbackBridge B handle address (ucast activated) s =
   goSourceActivatedCallbackBridge Bc handle address (ucast activated) sc \<Longrightarrow>
   goSourceActivatedCallback B handle address activated s =
   goSourceActivatedCallback Bc handle address activated sc"
  by (simp add: goSourceActivatedCallback_def call_void_def)

section \<open>The claims\<close>

text \<open>
  C1. For each of the seven event kinds, an invocation with a valid, non-null payload
  makes exactly one call, to the handler of that event kind, and the numeric values it
  carries are those of the payload: level and timestamp of the log record, key code and
  duration of the key-press record, the alert kind, the menu state, the logical address
  and the activation flag (whose value as a 32-bit \<^verbatim>\<open>int\<close> is its value as a
  \<^verbatim>\<open>uint8_t\<close>). A payload is valid when its pointer is non-null and addresses a
  record of the right type (for a log record, one whose message text is non-null too).
  That the handler is really run, once, on these values shows in the state: the state
  returned is the one the handler gives for exactly these arguments on the state
  received (for the alert, on the state received with the parameter object in place,
  less that object afterwards), and there is no return when the handler gives none.
\<close>

theorem valid_payload_dispatched_once:
  "(msg \<noteq> NULL \<and> mem s msg = Some (LogMessageObj r) \<and> message r \<noteq> NULL \<longrightarrow>
      goLogMessageCallback B handle msg s =
        call_void (LogMessageCall handle (level r) (time r) (message r))
          (goLogMessageCallbackBridge B handle (level r) (time r) (message r)) s
      \<and> calls_made (goLogMessageCallback B handle msg s) =
          [LogMessageCall handle (level r) (time r) (message r)]
      \<and> final_state (goLogMessageCallback B handle msg s) =
          goLogMessageCallbackBridge B handle (level r) (time r) (message r) s)
   \<and> (key \<noteq> NULL \<and> mem s key = Some (KeyPressObj k) \<longrightarrow>
      goKeyPressCallback B handle key s =
        call_void (KeyPressCall handle (keycode k) (duration k))
          (goKeyPressCallbackBridge B handle (keycode k) (duration k)) s
      \<and> calls_made (goKeyPressCallback B handle key s) =
          [KeyPressCall handle (keycode k) (duration k)]
      \<and> final_state (goKeyPressCallback B handle key s) =
          goKeyPressCallbackBridge B handle (keycode k) (duration k) s)
   \<and> (command \<noteq> NULL \<longrightarrow>
      goCommandCallback B handle command s =
        call_void (CommandCall handle command) (goCommandCallbackBridge B handle command) s
      \<and> calls_made (goCommandCallback B handle command s) = [CommandCall handle command]
      \<and> final_state (goCommandCallback B handle command s) =
          goCommandCallbackBridge B handle command s)
   \<and> (config \<noteq> NULL \<longrightarrow>
      goConfigurationChangedCallback B handle config s =
        call_void (ConfigurationChangedCall handle config)
          (goConfigurationChangedCallbackBridge B handle config) s
      \<and> calls_made (goConfigurationChangedCallback B handle config s) =
          [ConfigurationChangedCall handle config]
      \<and> final_state (goConfigurationChangedCallback B handle config s) =
          goConfigurationChangedCallbackBridge B handle config s)
   \<and> (calls_made (goAlertCallback B pa handle alert param s) = [AlertCall handle alert pa]
      \<and> final_state (goAlertCallback B pa handle alert param s) =
          map_option (\<lambda>s2. s2\<lparr>mem := (mem s2)(pa := None)\<rparr>)
            (goAlertCallbackBridge B handle alert pa
               (s\<lparr>mem := (mem s)(pa \<mapsto> ParameterObj param)\<rparr>))
      \<and> (goAlertCallbackBridge B handle alert pa
             (s\<lparr>mem := (mem s)(pa \<mapsto> ParameterObj param)\<rparr>) = None \<longleftrightarrow>
           goAlertCallback B pa handle alert param s =
             Inl (NoReturn (AlertCall handle alert pa))))
   \<and> (goMenuStateChangedCallback B handle st s =
        call_int (MenuStateChangedCall handle st) (goMenuStateChangedCallbackBridge B handle st) s
      \<and> calls_made (goMenuStateChangedCallback B handle st s) = [MenuStateChangedCall handle st]
      \<and> final_state (goMenuStateChangedCallback B handle st s) =
          map_option snd (goMenuStateChangedCallbackBridge B handle st s)
      \<and> returned (goMenuStateChangedCallback B handle st s) =
          map_option fst (goMenuStateChangedCallbackBridge B handle st s))
   \<and> (goSourceActivatedCallback B handle address activated s =
        call_void (SourceActivatedCall handle address (ucast activated))
          (goSourceActivatedCallbackBridge B handle address (ucast activated)) s
      \<and> calls_made (goSourceActivatedCallback B handle address activated s) =
          [SourceActivatedCall handle address (ucast activated)]
      \<and> final_state (goSourceActivatedCallback B handle address activated s) =
          goSourceActivatedCallbackBridge B handle address (ucast activated) s
      \<and> uint (ucast activated :: c_int) = uint activated)"
proof -
  have alert_noreturn:
    "goAlertCallbackBridge B handle alert pa
       (s\<lparr>mem := (mem s)(pa \<mapsto> ParameterObj param)\<rparr>) = None \<longleftrightarrow>
     goAlertCallback B pa handle alert param s = Inl (NoReturn (AlertCall handle alert pa))"
    by (simp add: goAlertCallback_def call_void_def split: option.split)
  show ?thesis
    using alert_noreturn
    by (simp add: log_valid key_valid command_valid config_valid alert_calls menu_calls
        source_calls call_void_calls call_int_calls call_void_final flag_uint alert_final
        menu_final menu_returned source_final)
      (simp add: goMenuStateChangedCallback_def goSourceActivatedCallback_def)
qed

theorem valid_payload_dispatched_once_witness:
  "(0x1000 :: addr) \<noteq> NULL
   \<and> mem recording_state 0x1000 =
       Some (LogMessageObj \<lparr>message = 0x2000, level = 3, time = 1700000000\<rparr>)
   \<and> (0x2000 :: addr) \<noteq> NULL
   \<and> goLogMessageCallback recording_host 0x77 0x1000 recording_state =
       Inr ((), [LogMessageCall 0x77 3 1700000000 0x2000],
            recording_state\<lparr>host := [LogMessageCall 0x77 3 1700000000 0x2000]\<rparr>)
   \<and> (0x1020 :: addr) \<noteq> NULL
   \<and> mem recording_state 0x1020 = Some (KeyPressObj \<lparr>keycode = 0x44, duration = 500\<rparr>)
   \<and> goKeyPressCallback recording_host 0x77 0x1020 recording_state =
       Inr ((), [KeyPressCall 0x77 0x44 500],
            recording_state\<lparr>host := [KeyPressCall 0x77 0x44 500]\<rparr>)
   \<and> (0x3000 :: addr) \<noteq> NULL
   \<and> goCommandCallback recording_host 0x77 0x3000 recording_state =
       Inr ((), [CommandCall 0x77 0x3000], recording_state\<lparr>host := [CommandCall 0x77 0x3000]\<rparr>)
   \<and> (0x4000 :: addr) \<noteq> NULL
   \<and> goConfigurationChangedCallback recording_host 0x77 0x4000 recording_state =
       Inr ((), [ConfigurationChangedCall 0x77 0x4000],
            recording_state\<lparr>host := [ConfigurationChangedCall 0x77 0x4000]\<rparr>)
   \<and> goAlertCallback recording_host 0x7000 0x77 2 7 recording_state =
       Inr ((), [AlertCall 0x77 2 0x7000], recording_state\<lparr>host := [AlertCall 0x77 2 0x7000]\<rparr>)
   \<and> goMenuStateChangedCallback recording_host 0x77 1 recording_state =
       Inr (41, [MenuStateChangedCall 0x77 1],
            recording_state\<lparr>host := [MenuStateChangedCall 0x77 1]\<rparr>)
   \<and> goSourceActivatedCallback recording_host 0x77 4 1 recording_state =
       Inr ((), [SourceActivatedCall 0x77 4 1],
            recording_state\<lparr>host := [SourceActivatedCall 0x77 4 1]\<rparr>)"
  using valid_payload_dispatched_once [where B = recording_host and s = recording_state
      and handle = "0x77" and msg = "0x1000"
      and r = "\<lparr>message = 0x2000, level = 3, time = 1700000000\<rparr>"
      and key = "0x1020" and k = "\<lparr>keycode = 0x44, duration = 500\<rparr>"
      and command = "0x3000" and config = "0x4000" and pa = "0x7000" and alert = 2
      and param = 7 and st = 1 and address = 4 and activated = 1]
  by (simp add: recording_state_def sample_state_def recording_host_def call_void_def
      call_int_def goAlertCallback_def)

text \<open>
  C2. For every 32-bit state value, inside the menu-state enumeration or not, the
  menu-state entry point returns the integer its handler returned, and leaves the state
  the handler left: the state value goes to the handler as it came, and nothing is checked
  or replaced on the way back. The entry point itself has no way of failing: it never
  reads memory, and it returns whenever the handler does.
\<close>

theorem menu_state_result_is_host_result:
  "returned (goMenuStateChangedCallback B handle st s) =
     map_option fst (goMenuStateChangedCallbackBridge B handle st s)
   \<and> (goMenuStateChangedCallbackBridge B handle st s = Some (r, s') \<longrightarrow>
        goMenuStateChangedCallback B handle st s =
          Inr (r, [MenuStateChangedCall handle st], s'))
   \<and> \<not> faulted (goMenuStateChangedCallback B handle st s)"
  by (simp add: goMenuStateChangedCallback_def call_int_returned call_int_not_faulted)
    (simp add: call_int_def)

theorem menu_state_result_is_host_result_witness:
  "goMenuStateChangedCallbackBridge sample_host 0x77 0xFFFFFFF0 sample_state =
     Some (0x18, sample_state\<lparr>host := 1\<rparr>)
   \<and> goMenuStateChangedCallback sample_host 0x77 0xFFFFFFF0 sample_state =
       Inr (0x18, [MenuStateChangedCall 0x77 0xFFFFFFF0], sample_state\<lparr>host := 1\<rparr>)
   \<and> returned (goMenuStateChangedCallback sample_host 0x77 0xFFFFFFF0 sample_state) = Some 0x18"
  using menu_state_result_is_host_result [where B = sample_host and handle = "0x77"
      and st = "0xFFFFFFF0" and s = sample_state and r = "0x18"
      and s' = "sample_state\<lparr>host := 1\<rparr>"]
  by (simp add: sample_host_def sample_state_def)

text \<open>
  C3. With a null record pointer, each of the four entry points that take a pointer to
  a record returns at once: no call into the Go side, no read of memory (so no fault,
  whatever memory holds), and the state is the one it was given.
\<close>

theorem null_record_is_noop:
  "goLogMessageCallback B handle NULL s = Inr ((), [], s)
   \<and> goKeyPressCallback B handle NULL s = Inr ((), [], s)
   \<and> goCommandCallback B handle NULL s = Inr ((), [], s)
   \<and> goConfigurationChangedCallback B handle NULL s = Inr ((), [], s)"
  by (simp add: goLogMessageCallback_def goKeyPressCallback_def goCommandCallback_def
      goConfigurationChangedCallback_def)

text \<open>
  C4. A log record that is itself readable but whose message text is the null pointer is
  dropped: the entry point returns with no call made and the state unchanged. The bridge
  never reads through the text pointer at all, it only compares it with null and hands
  it on. Conversely a call into the Go side is made only when the record pointer is
  non-null, addresses a log record, and that record's message text is non-null.
\<close>

theorem null_message_text_is_dropped:
  "(msg \<noteq> NULL \<and> mem s msg = Some (LogMessageObj r) \<and> message r = NULL \<longrightarrow>
      goLogMessageCallback B handle msg s = Inr ((), [], s))
   \<and> (calls_made (goLogMessageCallback B handle other_msg s) \<noteq> [] \<longrightarrow>
        other_msg \<noteq> NULL \<and> (\<exists>other_r. mem s other_msg = Some (LogMessageObj other_r) \<and> message other_r \<noteq> NULL))"
proof (intro conjI impI)
  assume "msg \<noteq> NULL \<and> mem s msg = Some (LogMessageObj r) \<and> message r = NULL"
  then show "goLogMessageCallback B handle msg s = Inr ((), [], s)"
    by (simp add: goLogMessageCallback_def read_log_message_def)
next
  assume c: "calls_made (goLogMessageCallback B handle other_msg s) \<noteq> []"
  then show "other_msg \<noteq> NULL"
    by (auto simp: log_calls_cases)
  from c show "\<exists>other_r. mem s other_msg = Some (LogMessageObj other_r) \<and> message other_r \<noteq> NULL"
    by (auto simp: log_calls_cases split: if_splits option.splits obj.splits)
qed

theorem null_message_text_is_dropped_witness:
  "(0x1010 :: addr) \<noteq> NULL
   \<and> mem sample_state 0x1010 =
       Some (LogMessageObj \<lparr>message = NULL, level = 3, time = 1700000000\<rparr>)
   \<and> goLogMessageCallback sample_host 0x77 0x1010 sample_state = Inr ((), [], sample_state)
   \<and> calls_made (goLogMessageCallback sample_host 0x77 0x1000 sample_state) \<noteq> []
   \<and> (\<exists>other_r. mem sample_state 0x1000 = Some (LogMessageObj other_r) \<and> message other_r \<noteq> NULL)"
  using null_message_text_is_dropped [where B = sample_host and handle = "0x77"
      and s = sample_state and msg = "0x1010" and other_msg = "0x1000"
      and r = "\<lparr>message = NULL, level = 3, time = 1700000000\<rparr>"]
  by (simp add: sample_state_def log_calls_cases)

text \<open>
  C5, as the spec states it, does not hold. The sample alert handler stores 99 through
  the pointer it is given. The native caller holds a parameter object with value 7 at
  0x1030 and passes that value; the entry point's own parameter object is at 0x7000.
  The handler's write lands at 0x7000. After the return the state is the one before the
  call: the caller's object still holds 7 and nothing lives at 0x7000 any more.
\<close>

theorem alert_write_not_seen_by_caller_counterexample:
  "goAlertCallbackBridge sample_host 0x77 2 0x7000
       (sample_state\<lparr>mem := (mem sample_state)(0x7000 \<mapsto> ParameterObj 7)\<rparr>) =
     Some (sample_state\<lparr>mem := (mem sample_state)(0x7000 \<mapsto> ParameterObj 99)\<rparr>)
   \<and> goAlertCallback sample_host 0x7000 0x77 2 7 sample_state =
       Inr ((), [AlertCall 0x77 2 0x7000], sample_state)
   \<and> mem sample_state 0x1030 = Some (ParameterObj 7)
   \<and> mem sample_state 0x7000 = None"
  by (simp add: goAlertCallback_def call_void_def sample_host_def sample_state_def)

text \<open>
  C5, amended. The alert handler receives the address of the entry point's own parameter
  object, not the parameter value; during the call that object holds the value the
  caller passed. What the handler writes through the pointer stays in that object,
  which is gone when the entry point returns; at every other address memory is as the
  handler left it, and so is the host state.
\<close>

theorem alert_reference_is_to_bridge_copy:
  assumes "goAlertCallbackBridge B handle alert pa
             (s\<lparr>mem := (mem s)(pa \<mapsto> ParameterObj param)\<rparr>) = Some s2"
  shows "mem (s\<lparr>mem := (mem s)(pa \<mapsto> ParameterObj param)\<rparr>) pa = Some (ParameterObj param)
         \<and> (\<exists>s'. goAlertCallback B pa handle alert param s =
                    Inr ((), [AlertCall handle alert pa], s')
                \<and> mem s' pa = None
                \<and> (\<forall>a. a \<noteq> pa \<longrightarrow> mem s' a = mem s2 a)
                \<and> host s' = host s2)"
  using assms by (simp add: goAlertCallback_def call_void_def)

theorem alert_reference_is_to_bridge_copy_witness:
  "goAlertCallbackBridge sample_host 0x77 2 0x7000
       (sample_state\<lparr>mem := (mem sample_state)(0x7000 \<mapsto> ParameterObj 7)\<rparr>) =
     Some (sample_state\<lparr>mem := (mem sample_state)(0x7000 \<mapsto> ParameterObj 99)\<rparr>)
   \<and> (\<exists>s'. goAlertCallback sample_host 0x7000 0x77 2 7 sample_state =
               Inr ((), [AlertCall 0x77 2 0x7000], s')
           \<and> mem s' 0x7000 = None
           \<and> mem s' 0x1030 = Some (ParameterObj 7)
           \<and> host s' = 0)"
proof -
  have h: "goAlertCallbackBridge sample_host 0x77 2 0x7000
       (sample_state\<lparr>mem := (mem sample_state)(0x7000 \<mapsto> ParameterObj 7)\<rparr>) =
     Some (sample_state\<lparr>mem := (mem sample_state)(0x7000 \<mapsto> ParameterObj 99)\<rparr>)"
    by (simp add: sample_host_def)
  from alert_reference_is_to_bridge_copy [OF h]
  obtain s' where
    "goAlertCallback sample_host 0x7000 0x77 2 7 sample_state =
       Inr ((), [AlertCall 0x77 2 0x7000], s')"
    "mem s' 0x7000 = None"
    "\<forall>a. a \<noteq> 0x7000 \<longrightarrow>
       mem s' a = mem (sample_state\<lparr>mem := (mem sample_state)(0x7000 \<mapsto> ParameterObj 99)\<rparr>) a"
    "host s' = host (sample_state\<lparr>mem := (mem sample_state)(0x7000 \<mapsto> ParameterObj 99)\<rparr>)"
    by blast
  then have "goAlertCallback sample_host 0x7000 0x77 2 7 sample_state =
       Inr ((), [AlertCall 0x77 2 0x7000], s')
     \<and> mem s' 0x7000 = None \<and> mem s' 0x1030 = Some (ParameterObj 7) \<and> host s' = 0"
    by (simp add: sample_state_def)
  with h show ?thesis by blast
qed

text \<open>
  C6. The alert entry point has no guard: whatever the alert kind, the parameter value
  and the state, it calls the alert handler exactly once, with the alert kind as a value
  and with an address at which, during the call, the parameter value is stored. It reads
  nothing through a pointer, so it cannot fault, and it returns whenever the handler does.
\<close>

theorem alert_dispatched_unconditionally:
  "calls_made (goAlertCallback B pa handle alert param s) = [AlertCall handle alert pa]
   \<and> \<not> faulted (goAlertCallback B pa handle alert param s)
   \<and> final_state (goAlertCallback B pa handle alert param s) =
       map_option (\<lambda>s2. s2\<lparr>mem := (mem s2)(pa := None)\<rparr>)
         (goAlertCallbackBridge B handle alert pa
            (s\<lparr>mem := (mem s)(pa \<mapsto> ParameterObj param)\<rparr>))"
  by (simp add: alert_calls alert_not_faulted)
    (simp add: goAlertCallback_def call_void_def split: option.split)

text \<open>
  C7. For the command and the configuration-changed entry points, a non-null record
  pointer is handed to the handler as the very address that came in. The record is never
  read: the outcome is the same whether or not memory holds anything at that address,
  and no invalid read can occur.
\<close>

theorem record_pointer_forwarded_unchanged:
  "(command \<noteq> NULL \<longrightarrow>
      goCommandCallback B handle command s =
        call_void (CommandCall handle command) (goCommandCallbackBridge B handle command) s
      \<and> calls_made (goCommandCallback B handle command s) = [CommandCall handle command])
   \<and> (config \<noteq> NULL \<longrightarrow>
      goConfigurationChangedCallback B handle config s =
        call_void (ConfigurationChangedCall handle config)
          (goConfigurationChangedCallbackBridge B handle config) s
      \<and> calls_made (goConfigurationChangedCallback B handle config s) =
          [ConfigurationChangedCall handle config])
   \<and> \<not> faulted (goCommandCallback B handle command s)
   \<and> \<not> faulted (goConfigurationChangedCallback B handle config s)"
  by (simp add: command_valid config_valid call_void_calls command_calls_cases
      config_calls_cases)
    (simp add: goCommandCallback_def goConfigurationChangedCallback_def call_void_not_faulted)

theorem record_pointer_forwarded_unchanged_witness:
  "(0x3000 :: addr) \<noteq> NULL \<and> (0x4000 :: addr) \<noteq> NULL
   \<and> mem sample_state 0x3000 = None \<and> mem sample_state 0x4000 = None
   \<and> goCommandCallback sample_host 0x77 0x3000 sample_state =
       Inr ((), [CommandCall 0x77 0x3000], sample_state\<lparr>host := 1\<rparr>)
   \<and> goConfigurationChangedCallback sample_host 0x77 0x4000 sample_state =
       Inr ((), [ConfigurationChangedCall 0x77 0x4000], sample_state\<lparr>host := 1\<rparr>)"
  using record_pointer_forwarded_unchanged [where B = sample_host and handle = "0x77"
      and s = sample_state and command = "0x3000" and config = "0x4000"]
  by (simp add: sample_state_def sample_host_def call_void_def)

text \<open>
  C8. What an entry point hands to the Go side is a function of its own arguments and,
  for the two entry points that read a record, of that record alone; the bridge has no
  variable of its own. Three facts say so. First, for any two Go sides, with any two
  types of host state, and any two states, the same arguments give the same calls,
  whatever else memory holds and whatever happened before. Second, the state an entry
  point returns is the state it received (when the event is dropped) or what its
  handler gives for this invocation's arguments on the state received, and the
  menu-state result is the handler's: the bridge writes nothing, and nothing but these
  arguments reaches the handler. Third, take two runs with the same arguments, on any
  two states and Go sides: if the two handlers answer alike for exactly these arguments,
  the two runs have the same outcome, so a state can influence an invocation only
  through the handler's own answer to it.
\<close>

theorem dispatch_depends_only_on_arguments:
  fixes Ba :: "('p, 'ha) bridges" and Bb :: "('p, 'hb) bridges"
    and sa :: "('p, 'ha) state" and sb :: "('p, 'hb) state"
    and B :: "('p, 'h) bridges" and Bc :: "('p, 'h) bridges"
    and s :: "('p, 'h) state" and sc :: "('p, 'h) state"
  shows
  "(mem sa msg = mem sb msg \<longrightarrow>
      calls_made (goLogMessageCallback Ba handle msg sa) =
      calls_made (goLogMessageCallback Bb handle msg sb))
   \<and> (mem sa key = mem sb key \<longrightarrow>
      calls_made (goKeyPressCallback Ba handle key sa) =
      calls_made (goKeyPressCallback Bb handle key sb))
   \<and> calls_made (goCommandCallback Ba handle command sa) =
     calls_made (goCommandCallback Bb handle command sb)
   \<and> calls_made (goConfigurationChangedCallback Ba handle config sa) =
     calls_made (goConfigurationChangedCallback Bb handle config sb)
   \<and> calls_made (goAlertCallback Ba pa handle alert param sa) =
     calls_made (goAlertCallback Bb pa handle alert param sb)
   \<and> calls_made (goMenuStateChangedCallback Ba handle st sa) =
     calls_made (goMenuStateChangedCallback Bb handle st sb)
   \<and> calls_made (goSourceActivatedCallback Ba handle address activated sa) =
     calls_made (goSourceActivatedCallback Bb handle address activated sb)
   \<and> (map_option fst (goMenuStateChangedCallbackBridge Ba handle st sa) =
      map_option fst (goMenuStateChangedCallbackBridge Bb handle st sb) \<longrightarrow>
      returned (goMenuStateChangedCallback Ba handle st sa) =
      returned (goMenuStateChangedCallback Bb handle st sb))
   \<and> final_state (goLogMessageCallback B handle msg s) =
       (if msg = NULL then Some s
        else case mem s msg of
               Some (LogMessageObj r) \<Rightarrow>
                 if message r = NULL then Some s
                 else goLogMessageCallbackBridge B handle (level r) (time r) (message r) s
             | _ \<Rightarrow> None)
   \<and> final_state (goKeyPressCallback B handle key s) =
       (if key = NULL then Some s
        else case mem s key of
               Some (KeyPressObj k) \<Rightarrow>
                 goKeyPressCallbackBridge B handle (keycode k) (duration k) s
             | _ \<Rightarrow> None)
   \<and> final_state (goCommandCallback B handle command s) =
       (if command = NULL then Some s else goCommandCallbackBridge B handle command s)
   \<and> final_state (goConfigurationChangedCallback B handle config s) =
       (if config = NULL then Some s
        else goConfigurationChangedCallbackBridge B handle config s)
   \<and> final_state (goAlertCallback B pa handle alert param s) =
       map_option (\<lambda>s2. s2\<lparr>mem := (mem s2)(pa := None)\<rparr>)
         (goAlertCallbackBridge B handle alert pa
            (s\<lparr>mem := (mem s)(pa \<mapsto> ParameterObj param)\<rparr>))
   \<and> final_state (goMenuStateChangedCallback B handle st s) =
       map_option snd (goMenuStateChangedCallbackBridge B handle st s)
   \<and> returned (goMenuStateChangedCallback B handle st s) =
       map_option fst (goMenuStateChangedCallbackBridge B handle st s)
   \<and> final_state (goSourceActivatedCallback B handle address activated s) =
       goSourceActivatedCallbackBridge B handle address (ucast activated) s
   \<and> (msg \<noteq> NULL \<and> mem s msg = Some (LogMessageObj rec)
      \<and> mem sc msg = Some (LogMessageObj rec) \<and> message rec \<noteq> NULL
      \<and> goLogMessageCallbackBridge B handle (level rec) (time rec) (message rec) s =
         goLogMessageCallbackBridge Bc handle (level rec) (time rec) (message rec) sc \<longrightarrow>
      goLogMessageCallback B handle msg s = goLogMessageCallback Bc handle msg sc)
   \<and> (key \<noteq> NULL \<and> mem s key = Some (KeyPressObj kp) \<and> mem sc key = Some (KeyPressObj kp)
      \<and> goKeyPressCallbackBridge B handle (keycode kp) (duration kp) s =
         goKeyPressCallbackBridge Bc handle (keycode kp) (duration kp) sc \<longrightarrow>
      goKeyPressCallback B handle key s = goKeyPressCallback Bc handle key sc)
   \<and> (command \<noteq> NULL
      \<and> goCommandCallbackBridge B handle command s =
         goCommandCallbackBridge Bc handle command sc \<longrightarrow>
      goCommandCallback B handle command s = goCommandCallback Bc handle command sc)
   \<and> (config \<noteq> NULL
      \<and> goConfigurationChangedCallbackBridge B handle config s =
         goConfigurationChangedCallbackBridge Bc handle config sc \<longrightarrow>
      goConfigurationChangedCallback B handle config s =
      goConfigurationChangedCallback Bc handle config sc)
   \<and> (goAlertCallbackBridge B handle alert pa
         (s\<lparr>mem := (mem s)(pa \<mapsto> ParameterObj param)\<rparr>) =
       goAlertCallbackBridge Bc handle alert pa
         (sc\<lparr>mem := (mem sc)(pa \<mapsto> ParameterObj param)\<rparr>) \<longrightarrow>
      goAlertCallback B pa handle alert param s = goAlertCallback Bc pa handle alert param sc)
   \<and> (goMenuStateChangedCallbackBridge B handle st s =
       goMenuStateChangedCallbackBridge Bc handle st sc \<longrightarrow>
      goMenuStateChangedCallback B handle st s = goMenuStateChangedCallback Bc handle st sc)
   \<and> (goSourceActivatedCallbackBridge B handle address (ucast activated) s =
       goSourceActivatedCallbackBridge Bc handle address (ucast activated) sc \<longrightarrow>
      goSourceActivatedCallback B handle address activated s =
      goSourceActivatedCallback Bc handle address activated sc)"
proof -
  have labels:
    "mem sa msg = mem sb msg \<longrightarrow>
       calls_made (goLogMessageCallback Ba handle msg sa) =
       calls_made (goLogMessageCallback Bb handle msg sb)"
    "mem sa key = mem sb key \<longrightarrow>
       calls_made (goKeyPressCallback Ba handle key sa) =
       calls_made (goKeyPressCallback Bb handle key sb)"
    "calls_made (goCommandCallback Ba handle command sa) =
     calls_made (goCommandCallback Bb handle command sb)"
    "calls_made (goConfigurationChangedCallback Ba handle config sa) =
     calls_made (goConfigurationChangedCallback Bb handle config sb)"
    "calls_made (goAlertCallback Ba pa handle alert param sa) =
     calls_made (goAlertCallback Bb pa handle alert param sb)"
    "calls_made (goMenuStateChangedCallback Ba handle st sa) =
     calls_made (goMenuStateChangedCallback Bb handle st sb)"
    "calls_made (goSourceActivatedCallback Ba handle address activated sa) =
     calls_made (goSourceActivatedCallback Bb handle address activated sb)"
    "map_option fst (goMenuStateChangedCallbackBridge Ba handle st sa) =
     map_option fst (goMenuStateChangedCallbackBridge Bb handle st sb) \<longrightarrow>
     returned (goMenuStateChangedCallback Ba handle st sa) =
     returned (goMenuStateChangedCallback Bb handle st sb)"
    by (simp_all add: log_calls_cases key_calls_cases command_calls_cases config_calls_cases
        alert_calls menu_calls source_calls menu_returned)
  have runs:
    "msg \<noteq> NULL \<and> mem s msg = Some (LogMessageObj rec)
      \<and> mem sc msg = Some (LogMessageObj rec) \<and> message rec \<noteq> NULL
      \<and> goLogMessageCallbackBridge B handle (level rec) (time rec) (message rec) s =
         goLogMessageCallbackBridge Bc handle (level rec) (time rec) (message rec) sc \<longrightarrow>
      goLogMessageCallback B handle msg s = goLogMessageCallback Bc handle msg sc"
    "key \<noteq> NULL \<and> mem s key = Some (KeyPressObj kp) \<and> mem sc key = Some (KeyPressObj kp)
      \<and> goKeyPressCallbackBridge B handle (keycode kp) (duration kp) s =
         goKeyPressCallbackBridge Bc handle (keycode kp) (duration kp) sc \<longrightarrow>
      goKeyPressCallback B handle key s = goKeyPressCallback Bc handle key sc"
    "command \<noteq> NULL
      \<and> goCommandCallbackBridge B handle command s =
         goCommandCallbackBridge Bc handle command sc \<longrightarrow>
      goCommandCallback B handle command s = goCommandCallback Bc handle command sc"
    "config \<noteq> NULL
      \<and> goConfigurationChangedCallbackBridge B handle config s =
         goConfigurationChangedCallbackBridge Bc handle config sc \<longrightarrow>
      goConfigurationChangedCallback B handle config s =
      goConfigurationChangedCallback Bc handle config sc"
    "goAlertCallbackBridge B handle alert pa
         (s\<lparr>mem := (mem s)(pa \<mapsto> ParameterObj param)\<rparr>) =
       goAlertCallbackBridge Bc handle alert pa
         (sc\<lparr>mem := (mem sc)(pa \<mapsto> ParameterObj param)\<rparr>) \<longrightarrow>
      goAlertCallback B pa handle alert param s = goAlertCallback Bc pa handle alert param sc"
    "goMenuStateChangedCallbackBridge B handle st s =
       goMenuStateChangedCallbackBridge Bc handle st sc \<longrightarrow>
      goMenuStateChangedCallback B handle st s = goMenuStateChangedCallback Bc handle st sc"
    "goSourceActivatedCallbackBridge B handle address (ucast activated) s =
       goSourceActivatedCallbackBridge Bc handle address (ucast activated) sc \<longrightarrow>
      goSourceActivatedCallback B handle address activated s =
      goSourceActivatedCallback Bc handle address activated sc"
    using log_two_runs [of msg s rec sc B handle Bc] key_two_runs [of key s kp sc B handle Bc]
      command_two_runs [of command B handle s Bc sc] config_two_runs [of config B handle s Bc sc]
      alert_two_runs [of B handle alert pa s param Bc sc] menu_two_runs [of B handle st s Bc sc]
      source_two_runs [of B handle address activated s Bc sc]
    by blast+
  show ?thesis
    by (intro conjI)
      (fact labels runs log_final_eq key_final_eq command_final config_final alert_final
        menu_final menu_returned source_final)+
qed

theorem dispatch_depends_only_on_arguments_witness:
  "mem sample_state 0x1000 = mem other_state 0x1000
   \<and> calls_made (goLogMessageCallback sample_host 0x77 0x1000 sample_state) =
       [LogMessageCall 0x77 3 1700000000 0x2000]
   \<and> calls_made (goLogMessageCallback other_host 0x77 0x1000 other_state) =
       [LogMessageCall 0x77 3 1700000000 0x2000]
   \<and> mem sample_state 0x1020 = mem other_state 0x1020
   \<and> calls_made (goKeyPressCallback sample_host 0x77 0x1020 sample_state) =
       [KeyPressCall 0x77 0x44 500]
   \<and> calls_made (goKeyPressCallback other_host 0x77 0x1020 other_state) =
       [KeyPressCall 0x77 0x44 500]
   \<and> map_option fst (goMenuStateChangedCallbackBridge sample_host 0x77 1 sample_state) =
       map_option fst (goMenuStateChangedCallbackBridge other_host 0x77 1 other_state)
   \<and> returned (goMenuStateChangedCallback sample_host 0x77 1 sample_state) = Some 41
   \<and> returned (goMenuStateChangedCallback other_host 0x77 1 other_state) = Some 41
   \<and> recording_state \<noteq> later_state
   \<and> (0x1000 :: addr) \<noteq> NULL \<and> (0x2000 :: addr) \<noteq> NULL
   \<and> mem recording_state 0x1000 =
       Some (LogMessageObj \<lparr>message = 0x2000, level = 3, time = 1700000000\<rparr>)
   \<and> mem later_state 0x1000 =
       Some (LogMessageObj \<lparr>message = 0x2000, level = 3, time = 1700000000\<rparr>)
   \<and> goLogMessageCallbackBridge recording_host 0x77 3 1700000000 0x2000 recording_state =
       goLogMessageCallbackBridge recording_host 0x77 3 1700000000 0x2000 later_state
   \<and> goLogMessageCallback recording_host 0x77 0x1000 later_state =
       Inr ((), [LogMessageCall 0x77 3 1700000000 0x2000],
            recording_state\<lparr>host := [LogMessageCall 0x77 3 1700000000 0x2000]\<rparr>)
   \<and> goLogMessageCallback recording_host 0x77 0x1000 recording_state =
       goLogMessageCallback recording_host 0x77 0x1000 later_state
   \<and> goKeyPressCallback recording_host 0x77 0x1020 later_state =
       Inr ((), [KeyPressCall 0x77 0x44 500],
            recording_state\<lparr>host := [KeyPressCall 0x77 0x44 500]\<rparr>)
   \<and> goCommandCallback recording_host 0x77 0x3000 later_state =
       Inr ((), [CommandCall 0x77 0x3000], recording_state\<lparr>host := [CommandCall 0x77 0x3000]\<rparr>)
   \<and> goConfigurationChangedCallback recording_host 0x77 0x4000 later_state =
       Inr ((), [ConfigurationChangedCall 0x77 0x4000],
            recording_state\<lparr>host := [ConfigurationChangedCall 0x77 0x4000]\<rparr>)
   \<and> goAlertCallback recording_host 0x7000 0x77 2 7 later_state =
       Inr ((), [AlertCall 0x77 2 0x7000], recording_state\<lparr>host := [AlertCall 0x77 2 0x7000]\<rparr>)
   \<and> goMenuStateChangedCallback recording_host 0x77 1 later_state =
       Inr (41, [MenuStateChangedCall 0x77 1],
            recording_state\<lparr>host := [MenuStateChangedCall 0x77 1]\<rparr>)
   \<and> goSourceActivatedCallback recording_host 0x77 4 1 later_state =
       Inr ((), [SourceActivatedCall 0x77 4 1],
            recording_state\<lparr>host := [SourceActivatedCall 0x77 4 1]\<rparr>)
   \<and> (0x1020 :: addr) \<noteq> NULL
   \<and> mem recording_state 0x1020 = Some (KeyPressObj \<lparr>keycode = 0x44, duration = 500\<rparr>)
   \<and> mem later_state 0x1020 = Some (KeyPressObj \<lparr>keycode = 0x44, duration = 500\<rparr>)
   \<and> goKeyPressCallbackBridge recording_host 0x77 0x44 500 recording_state =
       goKeyPressCallbackBridge recording_host 0x77 0x44 500 later_state
   \<and> goKeyPressCallback recording_host 0x77 0x1020 recording_state =
       goKeyPressCallback recording_host 0x77 0x1020 later_state
   \<and> (0x3000 :: addr) \<noteq> NULL
   \<and> goCommandCallbackBridge recording_host 0x77 0x3000 recording_state =
       goCommandCallbackBridge recording_host 0x77 0x3000 later_state
   \<and> goCommandCallback recording_host 0x77 0x3000 recording_state =
       goCommandCallback recording_host 0x77 0x3000 later_state
   \<and> (0x4000 :: addr) \<noteq> NULL
   \<and> goConfigurationChangedCallbackBridge recording_host 0x77 0x4000 recording_state =
       goConfigurationChangedCallbackBridge recording_host 0x77 0x4000 later_state
   \<and> goConfigurationChangedCallback recording_host 0x77 0x4000 recording_state =
       goConfigurationChangedCallback recording_host 0x77 0x4000 later_state
   \<and> goAlertCallbackBridge recording_host 0x77 2 0x7000
         (recording_state\<lparr>mem := (mem recording_state)(0x7000 \<mapsto> ParameterObj 7)\<rparr>) =
       goAlertCallbackBridge recording_host 0x77 2 0x7000
         (later_state\<lparr>mem := (mem later_state)(0x7000 \<mapsto> ParameterObj 7)\<rparr>)
   \<and> goAlertCallback recording_host 0x7000 0x77 2 7 recording_state =
       goAlertCallback recording_host 0x7000 0x77 2 7 later_state
   \<and> goMenuStateChangedCallbackBridge recording_host 0x77 1 recording_state =
       goMenuStateChangedCallbackBridge recording_host 0x77 1 later_state
   \<and> goMenuStateChangedCallback recording_host 0x77 1 recording_state =
       goMenuStateChangedCallback recording_host 0x77 1 later_state
   \<and> goSourceActivatedCallbackBridge recording_host 0x77 4 1 recording_state =
       goSourceActivatedCallbackBridge recording_host 0x77 4 1 later_state
   \<and> goSourceActivatedCallback recording_host 0x77 4 1 recording_state =
       goSourceActivatedCallback recording_host 0x77 4 1 later_state"
proof -
  note inst = dispatch_depends_only_on_arguments [where Ba = sample_host and Bb = other_host
      and sa = sample_state and sb = other_state and B = recording_host
      and Bc = recording_host and s = recording_state and sc = later_state
      and handle = "0x77" and msg = "0x1000"
      and rec = "\<lparr>message = 0x2000, level = 3, time = 1700000000\<rparr>"
      and key = "0x1020" and kp = "\<lparr>keycode = 0x44, duration = 500\<rparr>"
      and command = "0x3000" and config = "0x4000" and pa = "0x7000" and alert = 2
      and param = 7 and st = 1 and address = 4 and activated = 1]
  have hyps:
    "mem sample_state 0x1000 = mem other_state 0x1000"
    "mem sample_state 0x1020 = mem other_state 0x1020"
    "map_option fst (goMenuStateChangedCallbackBridge sample_host 0x77 1 sample_state) =
       map_option fst (goMenuStateChangedCallbackBridge other_host 0x77 1 other_state)"
    "recording_state \<noteq> later_state"
    "mem recording_state 0x1000 =
       Some (LogMessageObj \<lparr>message = 0x2000, level = 3, time = 1700000000\<rparr>)"
    "mem later_state 0x1000 =
       Some (LogMessageObj \<lparr>message = 0x2000, level = 3, time = 1700000000\<rparr>)"
    "mem recording_state 0x1020 = Some (KeyPressObj \<lparr>keycode = 0x44, duration = 500\<rparr>)"
    "mem later_state 0x1020 = Some (KeyPressObj \<lparr>keycode = 0x44, duration = 500\<rparr>)"
    by (simp_all add: sample_state_def other_state_def sample_host_def other_host_def
        recording_state_def later_state_def)
  have answers:
    "goLogMessageCallbackBridge recording_host 0x77 3 1700000000 0x2000 recording_state =
       goLogMessageCallbackBridge recording_host 0x77 3 1700000000 0x2000 later_state"
    "goKeyPressCallbackBridge recording_host 0x77 0x44 500 recording_state =
       goKeyPressCallbackBridge recording_host 0x77 0x44 500 later_state"
    "goCommandCallbackBridge recording_host 0x77 0x3000 recording_state =
       goCommandCallbackBridge recording_host 0x77 0x3000 later_state"
    "goConfigurationChangedCallbackBridge recording_host 0x77 0x4000 recording_state =
       goConfigurationChangedCallbackBridge recording_host 0x77 0x4000 later_state"
    "goAlertCallbackBridge recording_host 0x77 2 0x7000
         (recording_state\<lparr>mem := (mem recording_state)(0x7000 \<mapsto> ParameterObj 7)\<rparr>) =
       goAlertCallbackBridge recording_host 0x77 2 0x7000
         (later_state\<lparr>mem := (mem later_state)(0x7000 \<mapsto> ParameterObj 7)\<rparr>)"
    "goMenuStateChangedCallbackBridge recording_host 0x77 1 recording_state =
       goMenuStateChangedCallbackBridge recording_host 0x77 1 later_state"
    "goSourceActivatedCallbackBridge recording_host 0x77 4 1 recording_state =
       goSourceActivatedCallbackBridge recording_host 0x77 4 1 later_state"
    by (simp_all add: recording_host_def recording_state_def later_state_def)
  have evals:
    "calls_made (goLogMessageCallback sample_host 0x77 0x1000 sample_state) =
       [LogMessageCall 0x77 3 1700000000 0x2000]"
    "calls_made (goLogMessageCallback other_host 0x77 0x1000 other_state) =
       [LogMessageCall 0x77 3 1700000000 0x2000]"
    "calls_made (goKeyPressCallback sample_host 0x77 0x1020 sample_state) =
       [KeyPressCall 0x77 0x44 500]"
    "calls_made (goKeyPressCallback other_host 0x77 0x1020 other_state) =
       [KeyPressCall 0x77 0x44 500]"
    "returned (goMenuStateChangedCallback sample_host 0x77 1 sample_state) = Some 41"
    "returned (goMenuStateChangedCallback other_host 0x77 1 other_state) = Some 41"
    "goLogMessageCallback recording_host 0x77 0x1000 later_state =
       Inr ((), [LogMessageCall 0x77 3 1700000000 0x2000],
            recording_state\<lparr>host := [LogMessageCall 0x77 3 1700000000 0x2000]\<rparr>)"
    "goKeyPressCallback recording_host 0x77 0x1020 later_state =
       Inr ((), [KeyPressCall 0x77 0x44 500],
            recording_state\<lparr>host := [KeyPressCall 0x77 0x44 500]\<rparr>)"
    "goCommandCallback recording_host 0x77 0x3000 later_state =
       Inr ((), [CommandCall 0x77 0x3000], recording_state\<lparr>host := [CommandCall 0x77 0x3000]\<rparr>)"
    "goConfigurationChangedCallback recording_host 0x77 0x4000 later_state =
       Inr ((), [ConfigurationChangedCall 0x77 0x4000],
            recording_state\<lparr>host := [ConfigurationChangedCall 0x77 0x4000]\<rparr>)"
    "goAlertCallback recording_host 0x7000 0x77 2 7 later_state =
       Inr ((), [AlertCall 0x77 2 0x7000], recording_state\<lparr>host := [AlertCall 0x77 2 0x7000]\<rparr>)"
    "goMenuStateChangedCallback recording_host 0x77 1 later_state =
       Inr (41, [MenuStateChangedCall 0x77 1],
            recording_state\<lparr>host := [MenuStateChangedCall 0x77 1]\<rparr>)"
    "goSourceActivatedCallback recording_host 0x77 4 1 later_state =
       Inr ((), [SourceActivatedCall 0x77 4 1],
            recording_state\<lparr>host := [SourceActivatedCall 0x77 4 1]\<rparr>)"
    by (simp_all add: log_calls_cases key_calls_cases menu_returned sample_state_def
        other_state_def sample_host_def other_host_def goLogMessageCallback_def
        goKeyPressCallback_def goCommandCallback_def goConfigurationChangedCallback_def
        goAlertCallback_def goMenuStateChangedCallback_def goSourceActivatedCallback_def
        read_log_message_def read_keypress_def call_void_def call_int_def
        recording_host_def recording_state_def later_state_def)
  show ?thesis
    using inst hyps answers evals by simp
qed

text \<open>
  C9. Every call an entry point makes carries the handle it received. The entry point
  writes to nothing it was given: the state it returns is the state it received or the
  state its handler returned when run on the state received. The alert entry point
  runs its handler on the state received plus its own parameter object, and returns the
  handler's state with that object removed; no other address is touched.
\<close>

theorem handle_and_inputs_read_only:
  "(\<forall>d \<in> set (calls_made (goLogMessageCallback B handle msg s)). handle_of d = handle)
   \<and> (\<forall>d \<in> set (calls_made (goKeyPressCallback B handle key s)). handle_of d = handle)
   \<and> (\<forall>d \<in> set (calls_made (goCommandCallback B handle command s)). handle_of d = handle)
   \<and> (\<forall>d \<in> set (calls_made (goConfigurationChangedCallback B handle config s)).
         handle_of d = handle)
   \<and> (\<forall>d \<in> set (calls_made (goAlertCallback B pa handle alert param s)).
         handle_of d = handle)
   \<and> (\<forall>d \<in> set (calls_made (goMenuStateChangedCallback B handle st s)).
         handle_of d = handle)
   \<and> (\<forall>d \<in> set (calls_made (goSourceActivatedCallback B handle address activated s)).
         handle_of d = handle)
   \<and> (final_state (goLogMessageCallback B handle msg s) = Some s' \<longrightarrow>
        s' = s \<or> (\<exists>l t m. goLogMessageCallbackBridge B handle l t m s = Some s'))
   \<and> (final_state (goKeyPressCallback B handle key s) = Some s' \<longrightarrow>
        s' = s \<or> (\<exists>c d. goKeyPressCallbackBridge B handle c d s = Some s'))
   \<and> (final_state (goCommandCallback B handle command s) = Some s' \<longrightarrow>
        s' = s \<or> goCommandCallbackBridge B handle command s = Some s')
   \<and> (final_state (goConfigurationChangedCallback B handle config s) = Some s' \<longrightarrow>
        s' = s \<or> goConfigurationChangedCallbackBridge B handle config s = Some s')
   \<and> (final_state (goMenuStateChangedCallback B handle st s) = Some s' \<longrightarrow>
        (\<exists>r. goMenuStateChangedCallbackBridge B handle st s = Some (r, s')))
   \<and> (final_state (goSourceActivatedCallback B handle address activated s) = Some s' \<longrightarrow>
        goSourceActivatedCallbackBridge B handle address (ucast activated) s = Some s')
   \<and> (final_state (goAlertCallback B pa handle alert param s) = Some after_alert \<longrightarrow>
        (\<exists>s2. goAlertCallbackBridge B handle alert pa
                 (s\<lparr>mem := (mem s)(pa \<mapsto> ParameterObj param)\<rparr>) = Some s2
             \<and> host after_alert = host s2
             \<and> (\<forall>a. a \<noteq> pa \<longrightarrow> mem after_alert a = mem s2 a)))"
proof -
  have handles:
    "(\<forall>d \<in> set (calls_made (goLogMessageCallback B handle msg s)). handle_of d = handle)"
    "(\<forall>d \<in> set (calls_made (goKeyPressCallback B handle key s)). handle_of d = handle)"
    "(\<forall>d \<in> set (calls_made (goCommandCallback B handle command s)). handle_of d = handle)"
    "(\<forall>d \<in> set (calls_made (goConfigurationChangedCallback B handle config s)).
         handle_of d = handle)"
    "(\<forall>d \<in> set (calls_made (goAlertCallback B pa handle alert param s)).
         handle_of d = handle)"
    "(\<forall>d \<in> set (calls_made (goMenuStateChangedCallback B handle st s)).
         handle_of d = handle)"
    "(\<forall>d \<in> set (calls_made (goSourceActivatedCallback B handle address activated s)).
         handle_of d = handle)"
    by (auto simp: log_calls_cases key_calls_cases command_calls_cases config_calls_cases
        alert_calls menu_calls source_calls split: option.splits obj.splits if_splits)
  have menu: "final_state (goMenuStateChangedCallback B handle st s) = Some s' \<longrightarrow>
        (\<exists>r. goMenuStateChangedCallbackBridge B handle st s = Some (r, s'))"
    by (auto simp: menu_final)
  have alert: "final_state (goAlertCallback B pa handle alert param s) = Some after_alert \<longrightarrow>
        (\<exists>s2. goAlertCallbackBridge B handle alert pa
                 (s\<lparr>mem := (mem s)(pa \<mapsto> ParameterObj param)\<rparr>) = Some s2
             \<and> host after_alert = host s2
             \<and> (\<forall>a. a \<noteq> pa \<longrightarrow> mem after_alert a = mem s2 a))"
    by (auto simp: alert_final)
  show ?thesis
    using handles menu alert log_final [of B handle msg s s'] key_final [of B handle key s s']
    by (simp add: command_final config_final source_final)
qed

theorem handle_and_inputs_read_only_witness:
  "calls_made (goLogMessageCallback sample_host 0x77 0x1000 sample_state) =
     [LogMessageCall 0x77 3 1700000000 0x2000]
   \<and> calls_made (goKeyPressCallback sample_host 0x77 0x1020 sample_state) =
       [KeyPressCall 0x77 0x44 500]
   \<and> calls_made (goCommandCallback sample_host 0x77 0x3000 sample_state) =
       [CommandCall 0x77 0x3000]
   \<and> calls_made (goConfigurationChangedCallback sample_host 0x77 0x4000 sample_state) =
       [ConfigurationChangedCall 0x77 0x4000]
   \<and> calls_made (goAlertCallback sample_host 0x7000 0x77 2 7 sample_state) =
       [AlertCall 0x77 2 0x7000]
   \<and> calls_made (goMenuStateChangedCallback sample_host 0x77 1 sample_state) =
       [MenuStateChangedCall 0x77 1]
   \<and> calls_made (goSourceActivatedCallback sample_host 0x77 4 1 sample_state) =
       [SourceActivatedCall 0x77 4 1]
   \<and> final_state (goLogMessageCallback sample_host 0x77 0x1000 sample_state) =
       Some (sample_state\<lparr>host := 1\<rparr>)
   \<and> goLogMessageCallbackBridge sample_host 0x77 3 1700000000 0x2000 sample_state =
       Some (sample_state\<lparr>host := 1\<rparr>)
   \<and> final_state (goKeyPressCallback sample_host 0x77 0x1020 sample_state) =
       Some (sample_state\<lparr>host := 1\<rparr>)
   \<and> final_state (goCommandCallback sample_host 0x77 0x3000 sample_state) =
       Some (sample_state\<lparr>host := 1\<rparr>)
   \<and> final_state (goConfigurationChangedCallback sample_host 0x77 0x4000 sample_state) =
       Some (sample_state\<lparr>host := 1\<rparr>)
   \<and> final_state (goMenuStateChangedCallback sample_host 0x77 1 sample_state) =
       Some (sample_state\<lparr>host := 1\<rparr>)
   \<and> final_state (goSourceActivatedCallback sample_host 0x77 4 1 sample_state) =
       Some (sample_state\<lparr>host := 1\<rparr>)
   \<and> final_state (goAlertCallback sample_host 0x7000 0x77 2 7 sample_state) =
       Some sample_state"
  using handle_and_inputs_read_only [where B = sample_host and s = sample_state
      and handle = "0x77" and msg = "0x1000" and key = "0x1020" and command = "0x3000"
      and config = "0x4000" and pa = "0x7000" and alert = 2 and param = 7 and st = 1
      and address = 4 and activated = 1 and s' = "sample_state\<lparr>host := 1\<rparr>"
      and after_alert = sample_state]
  by (simp add: log_calls_cases key_calls_cases command_calls_cases config_calls_cases
      alert_calls menu_calls source_calls command_final config_final menu_final source_final
      alert_final)
    (simp add: sample_state_def sample_host_def goLogMessageCallback_def
      goKeyPressCallback_def read_log_message_def read_keypress_def call_void_def)

text \<open>
  C10. The source-activated entry point passes the activation flag on as it is, for each
  of the 256 values of a \<^verbatim>\<open>uint8_t\<close>: the handler is run on the logical address
  unchanged and on an \<^verbatim>\<open>int\<close> that has the flag's value, read unsigned or signed;
  the state returned is the handler's for these two arguments. Converting the
  \<^verbatim>\<open>int\<close> back gives the flag again, so two different flags give two different
  calls (255 is not turned into 1).
\<close>

theorem activation_flag_forwarded_verbatim:
  "goSourceActivatedCallback B handle address activated s =
     call_void (SourceActivatedCall handle address (ucast activated))
       (goSourceActivatedCallbackBridge B handle address (ucast activated)) s
   \<and> calls_made (goSourceActivatedCallback B handle address activated s) =
       [SourceActivatedCall handle address (ucast activated)]
   \<and> final_state (goSourceActivatedCallback B handle address activated s) =
       goSourceActivatedCallbackBridge B handle address (ucast activated) s
   \<and> (goSourceActivatedCallbackBridge B handle address (ucast activated) s = Some s' \<longrightarrow>
        goSourceActivatedCallback B handle address activated s =
          Inr ((), [SourceActivatedCall handle address (ucast activated)], s'))
   \<and> (activated \<noteq> other_flag \<longrightarrow>
        calls_made (goSourceActivatedCallback B handle address activated s) \<noteq>
        calls_made (goSourceActivatedCallback B handle address other_flag s))
   \<and> uint (ucast activated :: c_int) = uint activated
   \<and> sint (ucast activated :: c_int) = uint activated
   \<and> (ucast (ucast activated :: c_int) :: uint8_t) = activated"
proof -
  have inj: "activated \<noteq> other_flag \<longrightarrow>
      (ucast activated :: c_int) \<noteq> ucast other_flag"
    using flag_roundtrip [of activated] flag_roundtrip [of other_flag] by auto
  show ?thesis
    using inj
    by (simp add: source_calls source_final flag_uint flag_sint flag_roundtrip)
      (simp add: goSourceActivatedCallback_def call_void_def)
qed

theorem activation_flag_forwarded_verbatim_witness:
  "goSourceActivatedCallbackBridge recording_host 0x77 4 255 recording_state =
     Some (recording_state\<lparr>host := [SourceActivatedCall 0x77 4 255]\<rparr>)
   \<and> goSourceActivatedCallback recording_host 0x77 4 255 recording_state =
       Inr ((), [SourceActivatedCall 0x77 4 255],
            recording_state\<lparr>host := [SourceActivatedCall 0x77 4 255]\<rparr>)
   \<and> (255 :: uint8_t) \<noteq> 1
   \<and> calls_made (goSourceActivatedCallback recording_host 0x77 4 255 recording_state) \<noteq>
       calls_made (goSourceActivatedCallback recording_host 0x77 4 1 recording_state)
   \<and> uint (ucast (255 :: uint8_t) :: c_int) = 255"
  using activation_flag_forwarded_verbatim [where B = recording_host and handle = "0x77"
      and address = 4 and activated = 255 and other_flag = 1 and s = recording_state
      and s' = "recording_state\<lparr>host := [SourceActivatedCall 0x77 4 255]\<rparr>"]
  by (simp add: recording_host_def goSourceActivatedCallback_def call_void_def)

end
